theory Spec2Isabelle
  imports Main "HOL-Library.Sublist"
begin

section \<open>JavaScript values\<close>

text \<open>
  The server receives its tool arguments as a JSON object and builds one HTTP request from
  them. Values are modelled as the JSON values JavaScript sees after parsing, plus
  \<open>undefined\<close> (the result of reading a property that is not there). An object is an
  association list in insertion order. Strings are lists of 8-bit characters, read as the
  UTF-16 code units below 256. A number is carried as the text that \<open>Number::toString\<close>
  gives for it (\<open>500\<close>, \<open>-3\<close>, \<open>1.5\<close>, \<open>1e+21\<close>; both zeros are \<open>0\<close>): the
  code converts numbers to strings and tests them for truth, and does nothing else with them.
\<close>

datatype jsval =
    JUndefined
  | JNull
  | JBool bool
  | JNum string
  | JStr string
  | JArr "jsval list"
  | JObj "(string \<times> jsval) list"

type_synonym jsobj = "(string \<times> jsval) list"

text \<open>A thrown JavaScript exception; both kinds carry a \<open>message\<close>.\<close>

datatype js_error = Error string | TypeError string

fun message :: "js_error \<Rightarrow> string" where
  "message (Error m) = m"
| "message (TypeError m) = m"

text \<open>\<open>ToBoolean\<close>: what \<open>!x\<close> and \<open>x || y\<close> test.\<close>

fun truthy :: "jsval \<Rightarrow> bool" where
  "truthy JUndefined = False"
| "truthy JNull = False"
| "truthy (JBool b) = b"
| "truthy (JNum n) = (n \<noteq> ''0'' \<and> n \<noteq> ''NaN'')"
| "truthy (JStr s) = (s \<noteq> [])"
| "truthy (JArr xs) = True"
| "truthy (JObj ps) = True"

text \<open>Property read \<open>obj[k]\<close>, property write \<open>obj[k] = v\<close>, and removal of a key
  (the rest pattern \<open>{organization, authorization, ...toolArgs}\<close>). Only own properties
  are modelled: the argument names of the catalogue and the fixed keys the code reads are taken
  not to be names of members of \<open>Object.prototype\<close>.\<close>

definition getProp :: "jsobj \<Rightarrow> string \<Rightarrow> jsval" where
  "getProp obj k = (case map_of obj k of None \<Rightarrow> JUndefined | Some v \<Rightarrow> v)"

fun setProp :: "jsobj \<Rightarrow> string \<Rightarrow> jsval \<Rightarrow> jsobj" where
  "setProp [] k v = [(k, v)]"
| "setProp ((k', v') # ps) k v =
     (if k' = k then (k, v) # ps else (k', v') # setProp ps k v)"

definition withoutProp :: "string \<Rightarrow> jsobj \<Rightarrow> jsobj" where
  "withoutProp k obj = filter (\<lambda>p. fst p \<noteq> k) obj"

definition hasOwn :: "jsobj \<Rightarrow> string \<Rightarrow> bool" where
  "hasOwn obj k = (k \<in> set (map fst obj))"

subsection \<open>String conversion\<close>

fun joinWith :: "string \<Rightarrow> string list \<Rightarrow> string" where
  "joinWith sep [] = []"
| "joinWith sep [s] = s"
| "joinWith sep (s # t # ss) = s @ sep @ joinWith sep (t # ss)"

text \<open>The decimal digits of a natural number, for the three-digit status code of a
  response.\<close>

fun showNat :: "nat \<Rightarrow> string" where
  "showNat n =
     (if n < 10 then [''0123456789'' ! n]
      else showNat (n div 10) @ [''0123456789'' ! (n mod 10)])"

declare showNat.simps [simp del]

text \<open>
  \<open>ToString\<close>, as applied by \<open>String.prototype.replace\<close> to its replacement and by
  \<open>URLSearchParams.append\<close> to its value. A number gives its text. An array is joined
  with commas, \<open>null\<close> and
  \<open>undefined\<close> elements giving the empty string. A parsed JSON object has no callable
  own property, so an object converts through \<open>Object.prototype.toString\<close> unless an own
  \<open>toString\<close> key shadows it, in which case the conversion throws.
\<close>

fun ToString :: "jsval \<Rightarrow> js_error + string"
  and ToStringElems :: "jsval list \<Rightarrow> js_error + string list" where
  "ToString JUndefined = Inr ''undefined''"
| "ToString JNull = Inr ''null''"
| "ToString (JBool b) = Inr (if b then ''true'' else ''false'')"
| "ToString (JNum n) = Inr n"
| "ToString (JStr s) = Inr s"
| "ToString (JArr xs) =
     (case ToStringElems xs of Inl e \<Rightarrow> Inl e | Inr ss \<Rightarrow> Inr (joinWith '','' ss))"
| "ToString (JObj ps) =
     (if hasOwn ps ''toString''
      then Inl (TypeError ''Cannot convert object to primitive value'')
      else Inr ''[object Object]'')"
| "ToStringElems [] = Inr []"
| "ToStringElems (x # xs) =
     (case (case x of JUndefined \<Rightarrow> Inr [] | JNull \<Rightarrow> Inr [] | _ \<Rightarrow> ToString x) of
        Inl e \<Rightarrow> Inl e
      | Inr s \<Rightarrow> (case ToStringElems xs of Inl e \<Rightarrow> Inl e | Inr ss \<Rightarrow> Inr (s # ss)))"

subsection \<open>String methods\<close>

text \<open>\<open>s.startsWith(p)\<close> is \<^const>\<open>prefix\<close>. \<open>splitAtFirst p s\<close> finds the first
  occurrence of \<open>p\<close> in \<open>s\<close> and returns what precedes and what follows it.\<close>

fun splitAtFirst :: "string \<Rightarrow> string \<Rightarrow> (string \<times> string) option" where
  "splitAtFirst p [] = (if p = [] then Some ([], []) else None)"
| "splitAtFirst p (c # cs) =
     (if prefix p (c # cs) then Some ([], drop (length p) (c # cs))
      else (case splitAtFirst p cs of
              None \<Rightarrow> None
            | Some (pre, post) \<Rightarrow> Some (c # pre, post)))"

text \<open>The replacement patterns of \<open>String.prototype.replace\<close> with a string pattern
  (no capture groups): \<open>$$\<close>, \<open>$&\<close>, \<open>$`\<close> and \<open>$'\<close>; any other \<open>$\<close> is literal.\<close>

fun getSubstitution :: "string \<Rightarrow> string \<Rightarrow> string \<Rightarrow> string \<Rightarrow> string" where
  "getSubstitution m pre post [] = []"
| "getSubstitution m pre post [c] = [c]"
| "getSubstitution m pre post (c # d # r) =
     (if c = CHR ''$'' \<and> d = CHR ''$'' then CHR ''$'' # getSubstitution m pre post r
      else if c = CHR ''$'' \<and> d = CHR ''&'' then m @ getSubstitution m pre post r
      else if c = CHR ''$'' \<and> d = CHR 0x60 then pre @ getSubstitution m pre post r
      else if c = CHR ''$'' \<and> d = CHR 0x27 then post @ getSubstitution m pre post r
      else c # getSubstitution m pre post (d # r))"

definition js_replace :: "string \<Rightarrow> string \<Rightarrow> string \<Rightarrow> string" where
  "js_replace p r s =
     (case splitAtFirst p s of
        None \<Rightarrow> s
      | Some (pre, post) \<Rightarrow> pre @ getSubstitution p pre post r @ post)"

text \<open>\<open>s.replace(/Z$/i, '')\<close>: one trailing \<open>Z\<close> or \<open>z\<close> is removed.\<close>

definition stripTrailingZ :: "string \<Rightarrow> string" where
  "stripTrailingZ s =
     (if s \<noteq> [] \<and> (last s = CHR ''Z'' \<or> last s = CHR ''z'') then butlast s else s)"

text \<open>\<open>s.trim()\<close>: the white space and line terminators among the code units below 256.\<close>

definition isWhiteSpace :: "char \<Rightarrow> bool" where
  "isWhiteSpace c = (c \<in> set [CHR 0x09, CHR 0x0A, CHR 0x0B, CHR 0x0C, CHR 0x0D, CHR 0x20, CHR 0xA0])"

definition trim :: "string \<Rightarrow> string" where
  "trim s = rev (dropWhile isWhiteSpace (rev (dropWhile isWhiteSpace s)))"

text \<open>\<open>s.toUpperCase()\<close> on the ASCII letters; it is only compared with \<open>POST\<close>,
  \<open>PUT\<close> and \<open>PATCH\<close>, which no other character below 256 maps into.\<close>

definition upperChar :: "char \<Rightarrow> char" where
  "upperChar c =
     (case map_of (zip ''abcdefghijklmnopqrstuvwxyz'' ''ABCDEFGHIJKLMNOPQRSTUVWXYZ'') c of
        None \<Rightarrow> c
      | Some u \<Rightarrow> u)"

definition toUpperCase :: "string \<Rightarrow> string" where
  "toUpperCase s = map upperChar s"

subsection \<open>URLSearchParams\<close>

text \<open>
  \<open>URLSearchParams.toString()\<close> is the \<open>application/x-www-form-urlencoded\<close>
  serialiser: ASCII letters, digits and \<open>*-._\<close> are kept, a space becomes \<open>+\<close>, and
  every other byte of the UTF-8 encoding is written \<open>%XX\<close>.
\<close>

definition hexByte :: "nat \<Rightarrow> string" where
  "hexByte b = [CHR ''%'', ''0123456789ABCDEF'' ! (b div 16), ''0123456789ABCDEF'' ! (b mod 16)]"

definition utf8 :: "char \<Rightarrow> nat list" where
  "utf8 c = (let n = (of_char c :: nat) in
     if n < 128 then [n] else [192 + n div 64, 128 + n mod 64])"

definition formKeep :: "char \<Rightarrow> bool" where
  "formKeep c =
     (c \<in> set ''ABCDEFGHIJKLMNOPQRSTUVWXYZabcdefghijklmnopqrstuvwxyz0123456789*-._'')"

definition encodeFormChar :: "char \<Rightarrow> string" where
  "encodeFormChar c =
     (if formKeep c then [c]
      else if c = CHR '' '' then ''+''
      else concat (map hexByte (utf8 c)))"

definition encodeForm :: "string \<Rightarrow> string" where
  "encodeForm s = concat (map encodeFormChar s)"

definition serializeParams :: "(string \<times> string) list \<Rightarrow> string" where
  "serializeParams qs = joinWith ''&'' (map (\<lambda>p. encodeForm (fst p) @ ''='' @ encodeForm (snd p)) qs)"

section \<open>The tool catalogue and the runtime\<close>

text \<open>
  \<open>mcp-config.json\<close> is parsed once at start-up. Each tool has a name, a description, a
  list of argument descriptors and a request template; \<open>needsApproval\<close> is a flag of the
  catalogue entry (a JSON document holds no functions, so it is a boolean here).
\<close>

record argSpec =
  arg_name :: string
  arg_type :: string
  arg_position :: string
  arg_required :: bool
  arg_description :: string

record requestTemplate =
  template_url :: string
  template_method :: string

record tool =
  tool_name :: string
  tool_description :: string
  tool_args :: "argSpec list"
  tool_requestTemplate :: requestTemplate
  needsApproval :: bool

record server =
  server_name :: string
  baseUrl :: string

record config =
  config_server :: server
  config_tools :: "tool list"

text \<open>What \<open>fetch\<close> is called with, and what comes back: the promise rejects with an
  error message (also when reading the response text fails), or a response arrives with a
  status code and a body text.\<close>

record request =
  req_url :: string
  req_method :: string
  req_headers :: "(string \<times> string) list"
  req_body :: "string option"

datatype fetchOutcome = Rejected string | Responded nat string

text \<open>
  The surroundings of the server process: the environment variables, the network and the
  JSON built-ins. \<open>JSON_parse\<close> gives \<open>None\<close> where \<open>JSON.parse\<close> throws, and
  \<open>JSON_stringify_pretty\<close> (\<open>JSON.stringify(x, null, 2)\<close>) gives \<open>None\<close> where no
  string is produced.
\<close>

record runtime =
  env :: "string \<Rightarrow> string option"
  fetch :: "request \<Rightarrow> fetchOutcome"
  JSON_parse :: "string \<Rightarrow> jsval option"
  JSON_stringify :: "jsval \<Rightarrow> string"
  JSON_stringify_pretty :: "jsval \<Rightarrow> string option"

datatype contentItem = TextContent string

record callToolResult =
  content :: "contentItem list"

section \<open>Normalising usage events\<close>

definition CLICKHOUSE_DATETIME_KEYS :: "string list" where
  "CLICKHOUSE_DATETIME_KEYS = [''DateTime64'', ''DateTime'', ''DateTime32'']"

fun formatClickHouseDateTime :: "jsval \<Rightarrow> jsval" where
  "formatClickHouseDateTime (JStr v) =
     JStr (trim (stripTrailingZ (js_replace ''t'' '' '' (js_replace ''T'' '' '' v))))"
| "formatClickHouseDateTime v = v"

definition formatDataKey :: "string \<Rightarrow> jsobj \<Rightarrow> jsobj" where
  "formatDataKey key d =
     (case getProp d key of
        JStr v \<Rightarrow> setProp d key (formatClickHouseDateTime (JStr v))
      | _ \<Rightarrow> d)"

fun normalizeUsageEventPayload :: "jsval \<Rightarrow> jsval" where
  "normalizeUsageEventPayload (JObj eventPayload) =
     (let normalized = eventPayload;
          normalized =
            (case getProp normalized ''timestamp'' of
               JStr v \<Rightarrow> setProp normalized ''timestamp'' (formatClickHouseDateTime (JStr v))
             | _ \<Rightarrow> normalized);
          normalized =
            (case getProp normalized ''data'' of
               JObj d \<Rightarrow> setProp normalized ''data'' (JObj (fold formatDataKey CLICKHOUSE_DATETIME_KEYS d))
             | _ \<Rightarrow> normalized)
      in JObj normalized)"
| "normalizeUsageEventPayload eventPayload = eventPayload"

section \<open>Building the request\<close>

text \<open>The header object of \<open>executeTool\<close>, for an organisation and a credential.\<close>

definition buildHeaders :: "string \<Rightarrow> string \<Rightarrow> (string \<times> string) list" where
  "buildHeaders organization authorization =
     [(''Content-Type'', ''application/json''),
      (''Accept'', ''application/json''),
      (''organisation'', organization),
      (''Authorization'',
         if prefix ''Bearer '' authorization then authorization else ''Bearer '' @ authorization)]"

text \<open>The loop over \<open>tool.args\<close> that fills the path placeholders; a conversion that
  throws ends it.\<close>

fun addPathParams :: "jsobj \<Rightarrow> argSpec list \<Rightarrow> string \<Rightarrow> js_error + string" where
  "addPathParams toolArgs [] u = Inr u"
| "addPathParams toolArgs (arg # rest) u =
     (if arg_position arg = ''path'' \<and> truthy (getProp toolArgs (arg_name arg))
      then (case ToString (getProp toolArgs (arg_name arg)) of
              Inl e \<Rightarrow> Inl e
            | Inr v \<Rightarrow> addPathParams toolArgs rest (js_replace (''{'' @ arg_name arg @ ''}'') v u))
      else addPathParams toolArgs rest u)"

text \<open>The loop that appends the query parameters to a \<open>URLSearchParams\<close>.\<close>

fun addQueryParams ::
  "jsobj \<Rightarrow> argSpec list \<Rightarrow> (string \<times> string) list \<Rightarrow> js_error + (string \<times> string) list" where
  "addQueryParams toolArgs [] queryParams = Inr queryParams"
| "addQueryParams toolArgs (arg # rest) queryParams =
     (if arg_position arg = ''query'' \<and> getProp toolArgs (arg_name arg) \<noteq> JUndefined
      then (case ToString (getProp toolArgs (arg_name arg)) of
              Inl e \<Rightarrow> Inl e
            | Inr v \<Rightarrow> addQueryParams toolArgs rest (queryParams @ [(arg_name arg, v)]))
      else addQueryParams toolArgs rest queryParams)"

definition buildUrl :: "config \<Rightarrow> tool \<Rightarrow> jsobj \<Rightarrow> js_error + string" where
  "buildUrl cfg t toolArgs =
     (case addPathParams toolArgs (tool_args t)
             (baseUrl (config_server cfg) @ template_url (tool_requestTemplate t)) of
        Inl e \<Rightarrow> Inl e
      | Inr u \<Rightarrow>
          (case addQueryParams toolArgs (tool_args t) [] of
             Inl e \<Rightarrow> Inl e
           | Inr queryParams \<Rightarrow>
               Inr (if serializeParams queryParams \<noteq> []
                    then u @ ''?'' @ serializeParams queryParams else u)))"

text \<open>The body: one step of the loop over \<open>tool.args\<close>, with the event of
  \<open>ingestRawMetricEvent\<close> normalised and spread over the body. The keys of the event are
  the caller's; the assignment \<open>bodyArgs[key] = value\<close> with the key \<open>__proto__\<close>
  reaches the setter of \<open>Object.prototype\<close> and creates no property.\<close>

definition flattenEntry :: "string \<times> jsval \<Rightarrow> jsobj \<Rightarrow> jsobj" where
  "flattenEntry kv bodyArgs =
     (if snd kv \<noteq> JUndefined \<and> fst kv \<noteq> ''__proto__''
      then setProp bodyArgs (fst kv) (snd kv) else bodyArgs)"

definition bodyStep :: "tool \<Rightarrow> jsobj \<Rightarrow> argSpec \<Rightarrow> jsobj \<Rightarrow> jsobj" where
  "bodyStep t toolArgs arg bodyArgs =
     (if arg_position arg = ''body'' \<and> getProp toolArgs (arg_name arg) \<noteq> JUndefined
      then
        if tool_name t = ''ingestRawMetricEvent'' \<and> arg_name arg = ''event''
        then (case normalizeUsageEventPayload (getProp toolArgs (arg_name arg)) of
                JObj entries \<Rightarrow> fold flattenEntry entries bodyArgs
              | eventPayload \<Rightarrow> setProp bodyArgs (arg_name arg) eventPayload)
        else setProp bodyArgs (arg_name arg) (getProp toolArgs (arg_name arg))
      else bodyArgs)"

definition collectBodyArgs :: "tool \<Rightarrow> jsobj \<Rightarrow> jsobj" where
  "collectBodyArgs t toolArgs = fold (bodyStep t toolArgs) (tool_args t) []"

definition defaultDataschema :: jsval where
  "defaultDataschema =
     JObj [(''customer_id'', JStr ''String''),
           (''timestamp'', JStr ''DateTime64''),
           (''data'', JObj [(''String'', JStr ''String''),
                            (''Int64'', JStr ''Int64''),
                            (''Float64'', JStr ''Float64''),
                            (''Date32'', JStr ''Date32''),
                            (''DateTime64'', JStr ''DateTime64''),
                            (''UUID'', JStr ''UUID''),
                            (''Bool'', JStr ''Bool'')])]"

text \<open>The defaults of \<open>createRawMetric\<close>: each is written only where the body has no
  truthy value for the key.\<close>

definition rawMetricDefaults :: "jsobj \<Rightarrow> jsobj \<Rightarrow> jsobj" where
  "rawMetricDefaults toolArgs bodyArgs =
     (let bodyArgs =
            (if \<not> truthy (getProp bodyArgs ''connector'')
             then setProp bodyArgs ''connector''
                    (if truthy (getProp toolArgs ''connector'')
                     then getProp toolArgs ''connector'' else JStr ''push_to_zenskar'')
             else bodyArgs);
          bodyArgs =
            (if \<not> truthy (getProp bodyArgs ''api_type'')
             then setProp bodyArgs ''api_type''
                    (if truthy (getProp toolArgs ''api_type'')
                     then getProp toolArgs ''api_type'' else JStr ''PUSH'')
             else bodyArgs);
          bodyArgs =
            (if \<not> truthy (getProp bodyArgs ''dataschema'')
             then setProp bodyArgs ''dataschema'' defaultDataschema
             else bodyArgs);
          bodyArgs =
            (if \<not> truthy (getProp bodyArgs ''column_order'')
             then setProp bodyArgs ''column_order'' (JArr [JStr ''timestamp''])
             else bodyArgs)
      in bodyArgs)"

definition buildBodyArgs :: "tool \<Rightarrow> jsobj \<Rightarrow> jsobj" where
  "buildBodyArgs t toolArgs =
     (let bodyArgs = collectBodyArgs t toolArgs
      in if tool_name t = ''createRawMetric'' then rawMetricDefaults toolArgs bodyArgs
         else bodyArgs)"

definition isMutating :: "string \<Rightarrow> bool" where
  "isMutating m = (toUpperCase m \<in> set [''POST'', ''PUT'', ''PATCH''])"

definition buildBody :: "runtime \<Rightarrow> tool \<Rightarrow> jsobj \<Rightarrow> string option" where
  "buildBody rt t toolArgs =
     (if isMutating (template_method (tool_requestTemplate t))
      then (let bodyArgs = buildBodyArgs t toolArgs
            in if bodyArgs \<noteq> [] then Some (JSON_stringify rt (JObj bodyArgs)) else None)
      else None)"

section \<open>The response processor\<close>

definition maxResponseLength :: nat where
  "maxResponseLength = 50000"

definition processResponse :: "runtime \<Rightarrow> jsval \<Rightarrow> string \<Rightarrow> string" where
  "processResponse rt responseData toolName =
     (case (case responseData of JStr s \<Rightarrow> Some s | _ \<Rightarrow> JSON_stringify_pretty rt responseData) of
        None \<Rightarrow> ''Error processing response''
      | Some response \<Rightarrow>
          (if length response > maxResponseLength
           then take maxResponseLength response
                  @ [CHR 0x0A, CHR 0x0A] @ ''[Response truncated due to length]''
           else response))"

section \<open>Executing a tool\<close>

definition errorMessage :: "tool \<Rightarrow> string \<Rightarrow> string" where
  "errorMessage t m =
     ''Error executing '' @ tool_name t @ '': '' @ m @ [CHR 0x0A, CHR 0x0A]
     @ ''This might be due to:'' @ [CHR 0x0A]
     @ ''- Invalid parameters'' @ [CHR 0x0A]
     @ ''- API rate limiting'' @ [CHR 0x0A]
     @ ''- Network connectivity issues'' @ [CHR 0x0A]
     @ ''- Authentication problems (check organization ID and Bearer token)'' @ [CHR 0x0A, CHR 0x0A]
     @ ''Please verify your credentials and try again.''"

definition responseOk :: "nat \<Rightarrow> bool" where
  "responseOk status = (200 \<le> status \<and> status \<le> 299)"

text \<open>The \<open>try\<close> block around \<open>fetch\<close>: every failure inside it is rethrown as an
  \<open>Error\<close> with the long message.\<close>

definition sendRequest :: "runtime \<Rightarrow> tool \<Rightarrow> request \<Rightarrow> js_error + callToolResult" where
  "sendRequest rt t req =
     (case fetch rt req of
        Rejected m \<Rightarrow> Inl (Error (errorMessage t m))
      | Responded status responseText \<Rightarrow>
          (if \<not> responseOk status
           then Inl (Error (errorMessage t (''HTTP '' @ showNat status @ '': '' @ responseText)))
           else
             (let responseData =
                    (case JSON_parse rt responseText of None \<Rightarrow> JStr responseText | Some d \<Rightarrow> d)
              in Inr \<lparr>content = [TextContent (processResponse rt responseData (tool_name t))]\<rparr>)))"

text \<open>
  \<open>executeTool\<close> returns what the JavaScript function returns or throws, together with
  the list of requests it handed to \<open>fetch\<close>. The schema makes \<open>organization\<close> and
  \<open>authorization\<close> strings; on any other truthy value the first string method called on
  it throws.
\<close>

definition executeTool ::
  "runtime \<Rightarrow> config \<Rightarrow> tool \<Rightarrow> jsobj \<Rightarrow> (js_error + callToolResult) \<times> request list" where
  "executeTool rt cfg t args =
     (let organization = getProp args ''organization'';
          authorization = getProp args ''authorization'';
          toolArgs = withoutProp ''authorization'' (withoutProp ''organization'' args)
      in if \<not> truthy organization
         then (Inl (Error ''Organization ID is required for API access''), [])
         else if \<not> truthy authorization
         then (Inl (Error ''Authorization token is required for API access''), [])
         else
           (case organization of
              JStr org \<Rightarrow>
                (case authorization of
                   JStr auth \<Rightarrow>
                     (case buildUrl cfg t toolArgs of
                        Inl e \<Rightarrow> (Inl e, [])
                      | Inr u \<Rightarrow>
                          (let req = \<lparr>req_url = u,
                                      req_method = template_method (tool_requestTemplate t),
                                      req_headers = buildHeaders org auth,
                                      req_body = buildBody rt t toolArgs\<rparr>
                           in (sendRequest rt t req, [req])))
                 | _ \<Rightarrow> (Inl (TypeError ''authorization.startsWith is not a function''), []))
            | _ \<Rightarrow> (Inl (TypeError ''organization.substring is not a function''), [])))"

text \<open>The handler that \<open>setupTools\<close> registers for each tool: whatever \<open>executeTool\<close>
  throws becomes a text result.\<close>

definition toolHandler ::
  "runtime \<Rightarrow> config \<Rightarrow> tool \<Rightarrow> jsobj \<Rightarrow> callToolResult \<times> request list" where
  "toolHandler rt cfg t args =
     (case executeTool rt cfg t args of
        (Inr result, calls) \<Rightarrow> (result, calls)
      | (Inl error, calls) \<Rightarrow>
          (\<lparr>content = [TextContent (''Error: '' @ message error)]\<rparr>, calls))"

section \<open>Example catalogue entries and a stub runtime\<close>

text \<open>
  The catalogue is data (\<open>mcp-config.json\<close>), so it is a parameter of every theorem.
  The entries below are small instances used to run the model on concrete calls: five tools
  in the shape the catalogue gives them, a server block, and a runtime whose network answers
  every request with status 200 and the text \<open>[]\<close>.
\<close>

definition exampleConfig :: config where
  "exampleConfig =
     \<lparr>config_server = \<lparr>server_name = ''zenskar'', baseUrl = ''https://api.zenskar.com''\<rparr>,
      config_tools = []\<rparr>"

definition exampleEnv :: "string \<Rightarrow> string option" where
  "exampleEnv = map_of [(''ZENSKAR_ORGANIZATION'', ''org_env''), (''ZENSKAR_AUTH_TOKEN'', ''tok_env'')]"

definition stubRuntime :: runtime where
  "stubRuntime =
     \<lparr>env = exampleEnv,
      fetch = (\<lambda>req. Responded 200 ''[]''),
      JSON_parse = (\<lambda>s. if s = ''[]'' then Some (JArr []) else None),
      JSON_stringify = (\<lambda>v. ''{}''),
      JSON_stringify_pretty = (\<lambda>v. if v = JArr [] then Some ''[]'' else None)\<rparr>"

definition listCustomers :: tool where
  "listCustomers =
     \<lparr>tool_name = ''listCustomers'',
      tool_description = ''List customers'',
      tool_args =
        [\<lparr>arg_name = ''limit'', arg_type = ''number'', arg_position = ''query'',
          arg_required = False, arg_description = ''Page size''\<rparr>,
         \<lparr>arg_name = ''search'', arg_type = ''string'', arg_position = ''query'',
          arg_required = False, arg_description = ''Search text''\<rparr>,
         \<lparr>arg_name = ''tags'', arg_type = ''array'', arg_position = ''query'',
          arg_required = False, arg_description = ''Tags''\<rparr>],
      tool_requestTemplate = \<lparr>template_url = ''/customers'', template_method = ''GET''\<rparr>,
      needsApproval = False\<rparr>"

definition getCustomer :: tool where
  "getCustomer =
     \<lparr>tool_name = ''getCustomer'',
      tool_description = ''Get a customer'',
      tool_args =
        [\<lparr>arg_name = ''customer_id'', arg_type = ''string'', arg_position = ''path'',
          arg_required = True, arg_description = ''Customer id''\<rparr>],
      tool_requestTemplate = \<lparr>template_url = ''/customers/{customer_id}'', template_method = ''GET''\<rparr>,
      needsApproval = False\<rparr>"

definition deleteCustomer :: tool where
  "deleteCustomer =
     \<lparr>tool_name = ''deleteCustomer'',
      tool_description = ''Delete a customer'',
      tool_args =
        [\<lparr>arg_name = ''customer_id'', arg_type = ''string'', arg_position = ''path'',
          arg_required = True, arg_description = ''Customer id''\<rparr>],
      tool_requestTemplate = \<lparr>template_url = ''/customers/{customer_id}'', template_method = ''DELETE''\<rparr>,
      needsApproval = True\<rparr>"

definition createRawMetric :: tool where
  "createRawMetric =
     \<lparr>tool_name = ''createRawMetric'',
      tool_description = ''Create a raw metric'',
      tool_args =
        [\<lparr>arg_name = ''name'', arg_type = ''string'', arg_position = ''body'',
          arg_required = True, arg_description = ''Metric name''\<rparr>,
         \<lparr>arg_name = ''connector'', arg_type = ''string'', arg_position = ''body'',
          arg_required = False, arg_description = ''Connector''\<rparr>,
         \<lparr>arg_name = ''api_type'', arg_type = ''string'', arg_position = ''body'',
          arg_required = False, arg_description = ''API type''\<rparr>,
         \<lparr>arg_name = ''dataschema'', arg_type = ''object'', arg_position = ''body'',
          arg_required = False, arg_description = ''Column types''\<rparr>,
         \<lparr>arg_name = ''column_order'', arg_type = ''array'', arg_position = ''body'',
          arg_required = False, arg_description = ''Ordering columns''\<rparr>],
      tool_requestTemplate = \<lparr>template_url = ''/usage/raw-metrics'', template_method = ''POST''\<rparr>,
      needsApproval = False\<rparr>"

definition ingestRawMetricEvent :: tool where
  "ingestRawMetricEvent =
     \<lparr>tool_name = ''ingestRawMetricEvent'',
      tool_description = ''Ingest one usage event'',
      tool_args =
        [\<lparr>arg_name = ''slug'', arg_type = ''string'', arg_position = ''path'',
          arg_required = True, arg_description = ''Raw metric slug''\<rparr>,
         \<lparr>arg_name = ''event'', arg_type = ''object'', arg_position = ''body'',
          arg_required = True, arg_description = ''Usage event''\<rparr>],
      tool_requestTemplate = \<lparr>template_url = ''/usage/raw-metrics/{slug}/events'', template_method = ''POST''\<rparr>,
      needsApproval = False\<rparr>"

text \<open>The credential classification as the specification words it: the number of
  dot-delimited segments of the credential.\<close>

fun splitOn :: "char \<Rightarrow> string \<Rightarrow> string list" where
  "splitOn c [] = [[]]"
| "splitOn c (x # xs) =
     (if x = c then [] # splitOn c xs
      else (case splitOn c xs of [] \<Rightarrow> [[x]] | s # ss \<Rightarrow> (x # s) # ss))"

definition threeSegments :: "string \<Rightarrow> bool" where
  "threeSegments s = (length (splitOn CHR ''.'' s) = 3)"

text \<open>The value the caller supplied for a body-position argument of the tool, and
  \<open>undefined\<close> for a name that is not one.\<close>

definition suppliedBodyArg :: "tool \<Rightarrow> jsobj \<Rightarrow> string \<Rightarrow> jsval" where
  "suppliedBodyArg t toolArgs k =
     (if list_ex (\<lambda>a. arg_position a = ''body'' \<and> arg_name a = k) (tool_args t)
      then getProp toolArgs k else JUndefined)"

text \<open>The query-position arguments of a call whose value is not \<open>undefined\<close>.\<close>

definition definedQueryArgs :: "jsobj \<Rightarrow> argSpec list \<Rightarrow> argSpec list" where
  "definedQueryArgs toolArgs as =
     filter (\<lambda>a. arg_position a = ''query'' \<and> getProp toolArgs (arg_name a) \<noteq> JUndefined) as"



text \<open>Modelled from the spec: the limit policy of \<open>listCustomers\<close>. The module that
  holds the policies (\<open>mcp-limits\<close>) is not part of these sources and \<open>server.js\<close> does not
  load it; the specification gives its page-size maximum as 100.\<close>

definition listCustomersMaxLimit :: nat where
  "listCustomersMaxLimit = 100"

section \<open>Facts about \<open>executeTool\<close>\<close>

text \<open>The defining equations, collected for evaluating the model on concrete calls.\<close>

lemmas model_defs =
  executeTool_def toolHandler_def sendRequest_def buildUrl_def buildBody_def buildHeaders_def
  buildBodyArgs_def collectBodyArgs_def bodyStep_def rawMetricDefaults_def flattenEntry_def
  defaultDataschema_def formatDataKey_def CLICKHOUSE_DATETIME_KEYS_def
  processResponse_def maxResponseLength_def responseOk_def errorMessage_def isMutating_def
  toUpperCase_def upperChar_def serializeParams_def encodeForm_def encodeFormChar_def formKeep_def
  utf8_def hexByte_def getProp_def withoutProp_def hasOwn_def showNat.simps
  js_replace_def stripTrailingZ_def trim_def isWhiteSpace_def threeSegments_def Let_def

lemmas example_defs =
  stubRuntime_def exampleConfig_def exampleEnv_def listCustomers_def getCustomer_def
  deleteCustomer_def createRawMetric_def ingestRawMetricEvent_def

lemma executeTool_organization_missing:
  "\<not> truthy (getProp args ''organization'') \<Longrightarrow>
   executeTool rt cfg t args = (Inl (Error ''Organization ID is required for API access''), [])"
  by (simp add: executeTool_def)

lemma executeTool_authorization_missing:
  "truthy (getProp args ''organization'') \<Longrightarrow> \<not> truthy (getProp args ''authorization'') \<Longrightarrow>
   executeTool rt cfg t args = (Inl (Error ''Authorization token is required for API access''), [])"
  by (simp add: executeTool_def)

text \<open>Every request handed to \<open>fetch\<close> is the one built from a non-empty organisation
  string and a non-empty credential string.\<close>

lemma executeTool_sent:
  assumes "req \<in> set (snd (executeTool rt cfg t args))"
  shows "\<exists>org auth u. getProp args ''organization'' = JStr org \<and> org \<noteq> [] \<and>
           getProp args ''authorization'' = JStr auth \<and> auth \<noteq> [] \<and>
           buildUrl cfg t (withoutProp ''authorization'' (withoutProp ''organization'' args)) = Inr u \<and>
           req = \<lparr>req_url = u, req_method = template_method (tool_requestTemplate t),
                  req_headers = buildHeaders org auth,
                  req_body = buildBody rt t
                     (withoutProp ''authorization'' (withoutProp ''organization'' args))\<rparr>"
  using assms
  by (auto simp: executeTool_def Let_def split: if_splits jsval.splits sum.splits)

lemma executeTool_with_credentials:
  assumes "getProp args ''organization'' = JStr org" "org \<noteq> []"
    "getProp args ''authorization'' = JStr auth" "auth \<noteq> []"
    "buildUrl cfg t (withoutProp ''authorization'' (withoutProp ''organization'' args)) = Inr u"
  shows "executeTool rt cfg t args =
     (sendRequest rt t
        \<lparr>req_url = u, req_method = template_method (tool_requestTemplate t),
         req_headers = buildHeaders org auth,
         req_body = buildBody rt t
            (withoutProp ''authorization'' (withoutProp ''organization'' args))\<rparr>,
      [\<lparr>req_url = u, req_method = template_method (tool_requestTemplate t),
        req_headers = buildHeaders org auth,
        req_body = buildBody rt t
           (withoutProp ''authorization'' (withoutProp ''organization'' args))\<rparr>])"
  using assms by (simp add: executeTool_def Let_def)

text \<open>The registered handler around \<open>executeTool\<close>.\<close>

lemma toolHandler_Inl:
  "executeTool rt cfg t args = (Inl e, calls) \<Longrightarrow>
   toolHandler rt cfg t args = (\<lparr>content = [TextContent (''Error: '' @ message e)]\<rparr>, calls)"
  by (simp add: toolHandler_def)

lemma toolHandler_Inr:
  "executeTool rt cfg t args = (Inr r, calls) \<Longrightarrow> toolHandler rt cfg t args = (r, calls)"
  by (simp add: toolHandler_def)

lemma toolHandler_calls: "snd (toolHandler rt cfg t args) = snd (executeTool rt cfg t args)"
  by (cases "executeTool rt cfg t args") (auto simp: toolHandler_def split: sum.splits)

lemma sendRequest_text:
  "sendRequest rt t req = Inr r \<Longrightarrow> \<exists>text. content r = [TextContent text]"
  by (auto simp: sendRequest_def Let_def split: fetchOutcome.splits if_splits)

lemma executeTool_text:
  "executeTool rt cfg t args = (Inr r, calls) \<Longrightarrow> \<exists>text. content r = [TextContent text]"
  by (auto simp: executeTool_def Let_def split: if_splits jsval.splits sum.splits dest: sendRequest_text)

lemma toolHandler_text: "\<exists>text. content (fst (toolHandler rt cfg t args)) = [TextContent text]"
proof (cases "executeTool rt cfg t args")
  case (Pair r calls)
  then show ?thesis
    by (cases r) (auto simp: toolHandler_def dest: executeTool_text)
qed

text \<open>Calls of the example tools, evaluated.\<close>

lemma listCustomers_call:
  "executeTool stubRuntime exampleConfig listCustomers
     [(''organization'', JStr ''org_1''), (''authorization'', JStr ''tok_1''), (''limit'', JNum ''500'')]
   = (Inr \<lparr>content = [TextContent ''[]'']\<rparr>,
      [\<lparr>req_url = ''https://api.zenskar.com/customers?limit=500'', req_method = ''GET'',
        req_headers = [(''Content-Type'', ''application/json''), (''Accept'', ''application/json''),
           (''organisation'', ''org_1''), (''Authorization'', ''Bearer tok_1'')],
        req_body = None\<rparr>])"
  by (simp add: model_defs example_defs)

lemma getCustomer_not_found:
  "executeTool (stubRuntime\<lparr>fetch := (\<lambda>req. Responded 404 ''not found'')\<rparr>) exampleConfig getCustomer
     [(''organization'', JStr ''org_1''), (''authorization'', JStr ''tok_1''), (''customer_id'', JStr ''c_42'')]
   = (Inl (Error ''Error executing getCustomer: HTTP 404: not found\<newline>\<newline>This might be due to:\<newline>- Invalid parameters\<newline>- API rate limiting\<newline>- Network connectivity issues\<newline>- Authentication problems (check organization ID and Bearer token)\<newline>\<newline>Please verify your credentials and try again.''),
      [\<lparr>req_url = ''https://api.zenskar.com/customers/c_42'', req_method = ''GET'',
        req_headers = [(''Content-Type'', ''application/json''), (''Accept'', ''application/json''),
           (''organisation'', ''org_1''), (''Authorization'', ''Bearer tok_1'')],
        req_body = None\<rparr>])"
  by (simp add: model_defs example_defs)

lemma getCustomer_unreachable:
  "executeTool (stubRuntime\<lparr>fetch := (\<lambda>req. Rejected ''fetch failed'')\<rparr>) exampleConfig getCustomer
     [(''organization'', JStr ''org_1''), (''authorization'', JStr ''tok_1''), (''customer_id'', JStr ''c_42'')]
   = (Inl (Error ''Error executing getCustomer: fetch failed\<newline>\<newline>This might be due to:\<newline>- Invalid parameters\<newline>- API rate limiting\<newline>- Network connectivity issues\<newline>- Authentication problems (check organization ID and Bearer token)\<newline>\<newline>Please verify your credentials and try again.''),
      [\<lparr>req_url = ''https://api.zenskar.com/customers/c_42'', req_method = ''GET'',
        req_headers = [(''Content-Type'', ''application/json''), (''Accept'', ''application/json''),
           (''organisation'', ''org_1''), (''Authorization'', ''Bearer tok_1'')],
        req_body = None\<rparr>])"
  by (simp add: model_defs example_defs)

lemma listCustomers_no_credentials:
  "executeTool stubRuntime exampleConfig listCustomers [(''limit'', JNum ''10'')]
   = (Inl (Error ''Organization ID is required for API access''), [])"
  by (simp add: model_defs example_defs)

lemma deleteCustomer_call:
  "executeTool stubRuntime exampleConfig deleteCustomer
     [(''organization'', JStr ''org_1''), (''authorization'', JStr ''tok_1''), (''customer_id'', JStr ''c_42'')]
   = (Inr \<lparr>content = [TextContent ''[]'']\<rparr>,
      [\<lparr>req_url = ''https://api.zenskar.com/customers/c_42'', req_method = ''DELETE'',
        req_headers = [(''Content-Type'', ''application/json''), (''Accept'', ''application/json''),
           (''organisation'', ''org_1''), (''Authorization'', ''Bearer tok_1'')],
        req_body = None\<rparr>])"
  by (simp add: model_defs example_defs)

lemma listCustomers_api_key_call:
  "snd (executeTool stubRuntime exampleConfig listCustomers
     [(''organization'', JStr ''org_1''), (''authorization'', JStr ''zsk_live_key'')])
   = [\<lparr>req_url = ''https://api.zenskar.com/customers'', req_method = ''GET'',
        req_headers = [(''Content-Type'', ''application/json''), (''Accept'', ''application/json''),
           (''organisation'', ''org_1''), (''Authorization'', ''Bearer zsk_live_key'')],
        req_body = None\<rparr>]"
  by (simp add: model_defs example_defs)

text \<open>A query-position argument with a value reaches the query parameters under its name,
  with the string conversion of its value.\<close>

lemma addQueryParams_keeps:
  "addQueryParams toolArgs as qs0 = Inr qs \<Longrightarrow> q \<in> set qs0 \<Longrightarrow> q \<in> set qs"
  by (induction as arbitrary: qs0) (auto split: if_splits sum.splits)

lemma addQueryParams_value:
  "addQueryParams toolArgs as qs0 = Inr qs \<Longrightarrow> a \<in> set as \<Longrightarrow> arg_position a = ''query'' \<Longrightarrow>
   getProp toolArgs (arg_name a) \<noteq> JUndefined \<Longrightarrow> ToString (getProp toolArgs (arg_name a)) = Inr v \<Longrightarrow>
   (arg_name a, v) \<in> set qs"
proof (induction as arbitrary: qs0)
  case Nil
  then show ?case by simp
next
  case (Cons x as)
  show ?case
  proof (cases "x = a")
    case True
    with Cons.prems have "addQueryParams toolArgs as (qs0 @ [(arg_name a, v)]) = Inr qs"
      by simp
    then show ?thesis
      by (rule addQueryParams_keeps) simp
  next
    case False
    with Cons.prems have "a \<in> set as" by simp
    with Cons.IH Cons.prems show ?thesis
      by (auto split: if_splits sum.splits)
  qed
qed

text \<open>The query parameters are exactly the converted values of the defined
  query-position arguments, in the order of the catalogue.\<close>

lemma addQueryParams_exact:
  "addQueryParams toolArgs as qs0 = Inr qs \<Longrightarrow>
   map fst qs = map fst qs0 @ map arg_name (definedQueryArgs toolArgs as) \<and>
   map (\<lambda>q. Inr (snd q)) qs
     = map (\<lambda>q. Inr (snd q)) qs0
       @ map (\<lambda>a. ToString (getProp toolArgs (arg_name a))) (definedQueryArgs toolArgs as)"
proof (induction as arbitrary: qs0)
  case Nil
  then show ?case by (simp add: definedQueryArgs_def)
next
  case (Cons a as)
  show ?case
  proof (cases "arg_position a = ''query'' \<and> getProp toolArgs (arg_name a) \<noteq> JUndefined")
    case True
    with Cons.prems obtain v where
      v: "ToString (getProp toolArgs (arg_name a)) = Inr v"
      and r: "addQueryParams toolArgs as (qs0 @ [(arg_name a, v)]) = Inr qs"
      by (auto split: sum.splits)
    from Cons.IH[OF r] True v show ?thesis
      by (simp add: definedQueryArgs_def)
  next
    case False
    with Cons.prems have "addQueryParams toolArgs as qs0 = Inr qs"
      by auto
    from Cons.IH[OF this] False show ?thesis
      by (auto simp: definedQueryArgs_def)
  qed
qed

lemma ToStringElems_strings: "ToStringElems (map JStr ss) = Inr ss"
  by (induction ss) simp_all

lemma listCustomers_empty_and_array_params:
  "addQueryParams [(''search'', JStr []), (''tags'', JArr [JStr ''a'', JStr ''b''])]
     (tool_args listCustomers) []
   = Inr [(''search'', []), (''tags'', ''a,b'')]"
  by (simp add: model_defs example_defs)

text \<open>Reading back what the body loop and the defaults of \<open>createRawMetric\<close> wrote.\<close>

lemma getProp_setProp:
  "getProp (setProp obj k v) k' = (if k' = k then v else getProp obj k')"
  by (induction obj) (auto simp: getProp_def)

lemma getProp_Nil: "getProp [] k = JUndefined"
  by (simp add: getProp_def)

lemma setProp_not_Nil: "setProp obj k v \<noteq> []"
  by (cases obj) (auto split: if_splits)

lemma bodyStep_plain:
  "tool_name t \<noteq> ''ingestRawMetricEvent'' \<Longrightarrow>
   getProp (bodyStep t toolArgs a acc) k =
     (if arg_position a = ''body'' \<and> arg_name a = k \<and> getProp toolArgs k \<noteq> JUndefined
      then getProp toolArgs k else getProp acc k)"
  by (auto simp: bodyStep_def getProp_setProp)

lemma fold_bodyStep_plain:
  "tool_name t \<noteq> ''ingestRawMetricEvent'' \<Longrightarrow>
   getProp (fold (bodyStep t toolArgs) as acc) k =
     (if list_ex (\<lambda>a. arg_position a = ''body'' \<and> arg_name a = k) as \<and> getProp toolArgs k \<noteq> JUndefined
      then getProp toolArgs k else getProp acc k)"
  by (induction as arbitrary: acc) (auto simp: bodyStep_plain)

lemma collectBodyArgs_plain:
  "tool_name t \<noteq> ''ingestRawMetricEvent'' \<Longrightarrow>
   getProp (collectBodyArgs t toolArgs) k = suppliedBodyArg t toolArgs k"
  by (auto simp: collectBodyArgs_def suppliedBodyArg_def fold_bodyStep_plain getProp_Nil)

lemma rawMetricDefaults_not_Nil: "rawMetricDefaults toolArgs b \<noteq> []"
  by (auto simp: rawMetricDefaults_def Let_def setProp_not_Nil getProp_Nil)

lemma rawMetricDefaults_column_order:
  "getProp (rawMetricDefaults toolArgs b) ''column_order'' =
     (if truthy (getProp b ''column_order'') then getProp b ''column_order''
      else JArr [JStr ''timestamp''])"
  by (simp add: rawMetricDefaults_def Let_def getProp_setProp)

lemma createRawMetric_mutating: "isMutating (template_method (tool_requestTemplate createRawMetric))"
  by (simp add: createRawMetric_def isMutating_def toUpperCase_def upperChar_def)



































section \<open>Credentials\<close>

text \<open>
  Claim C5. When the arguments carry no organisation id (absent or empty), \<open>executeTool\<close>
  fails with the organisation error and hands nothing to \<open>fetch\<close>; when the organisation
  is there and the credential is not, it fails with the authorisation error and hands
  nothing to \<open>fetch\<close>; a missing credential fails the call whatever the organisation is.
  Every request that is handed to \<open>fetch\<close> carries a non-empty organisation in its
  \<open>organisation\<close> header and a non-empty credential in its \<open>Authorization\<close> header. The
  code raises a plain \<open>Error\<close> for both failures; the message tells them apart.
\<close>

theorem credentials_required:
  "(\<not> truthy (getProp args ''organization'') \<longrightarrow>
      executeTool rt cfg t args = (Inl (Error ''Organization ID is required for API access''), []))
   \<and> (truthy (getProp args ''organization'') \<and> \<not> truthy (getProp args ''authorization'') \<longrightarrow>
      executeTool rt cfg t args = (Inl (Error ''Authorization token is required for API access''), []))
   \<and> (\<not> truthy (getProp args ''authorization'') \<longrightarrow>
      (\<exists>e. executeTool rt cfg t args = (Inl e, [])))
   \<and> (\<forall>req \<in> set (snd (executeTool rt cfg t args)).
        \<exists>org auth. org \<noteq> [] \<and> auth \<noteq> [] \<and>
          getProp args ''organization'' = JStr org \<and>
          getProp args ''authorization'' = JStr auth \<and>
          map_of (req_headers req) ''organisation'' = Some org \<and>
          map_of (req_headers req) ''Authorization''
            = Some (if prefix ''Bearer '' auth then auth else ''Bearer '' @ auth))"
proof (intro conjI impI ballI)
  assume "\<not> truthy (getProp args ''organization'')"
  then show "executeTool rt cfg t args
      = (Inl (Error ''Organization ID is required for API access''), [])"
    by (rule executeTool_organization_missing)
next
  assume "truthy (getProp args ''organization'') \<and> \<not> truthy (getProp args ''authorization'')"
  then show "executeTool rt cfg t args
      = (Inl (Error ''Authorization token is required for API access''), [])"
    by (simp add: executeTool_authorization_missing)
next
  assume "\<not> truthy (getProp args ''authorization'')"
  then show "\<exists>e. executeTool rt cfg t args = (Inl e, [])"
    by (cases "truthy (getProp args ''organization'')")
       (simp_all add: executeTool_authorization_missing executeTool_organization_missing)
next
  fix req assume "req \<in> set (snd (executeTool rt cfg t args))"
  from executeTool_sent[OF this] obtain org auth u where
    h: "getProp args ''organization'' = JStr org" "org \<noteq> []"
       "getProp args ''authorization'' = JStr auth" "auth \<noteq> []"
       "req_headers req = buildHeaders org auth"
    by auto
  show "\<exists>org auth. org \<noteq> [] \<and> auth \<noteq> [] \<and>
          getProp args ''organization'' = JStr org \<and>
          getProp args ''authorization'' = JStr auth \<and>
          map_of (req_headers req) ''organisation'' = Some org \<and>
          map_of (req_headers req) ''Authorization''
            = Some (if prefix ''Bearer '' auth then auth else ''Bearer '' @ auth)"
    using h by (simp add: buildHeaders_def)
qed

theorem credentials_required_witness:
  "executeTool stubRuntime exampleConfig listCustomers [(''authorization'', JStr ''tok_1'')]
     = (Inl (Error ''Organization ID is required for API access''), [])
   \<and> executeTool stubRuntime exampleConfig listCustomers [(''organization'', JStr ''org_1'')]
     = (Inl (Error ''Authorization token is required for API access''), [])
   \<and> (\<exists>req. snd (executeTool stubRuntime exampleConfig listCustomers
                 [(''organization'', JStr ''org_1''), (''authorization'', JStr ''tok_1''),
                  (''limit'', JNum ''500'')]) = [req]
         \<and> map_of (req_headers req) ''organisation'' = Some ''org_1''
         \<and> map_of (req_headers req) ''Authorization'' = Some ''Bearer tok_1'')"
proof -
  have a: "\<not> truthy (getProp [(''authorization'', JStr ''tok_1'')] ''organization'')"
    by (simp add: getProp_def)
  have b: "truthy (getProp [(''organization'', JStr ''org_1'')] ''organization'')
      \<and> \<not> truthy (getProp [(''organization'', JStr ''org_1'')] ''authorization'')"
    by (simp add: getProp_def)
  note c = credentials_required
    [of "[(''organization'', JStr ''org_1''), (''authorization'', JStr ''tok_1''), (''limit'', JNum ''500'')]"
        stubRuntime exampleConfig listCustomers]
  show ?thesis
    using a b c
      credentials_required [of "[(''authorization'', JStr ''tok_1'')]" stubRuntime exampleConfig listCustomers]
      credentials_required [of "[(''organization'', JStr ''org_1'')]" stubRuntime exampleConfig listCustomers]
    by (simp add: listCustomers_call getProp_def)
qed

section \<open>The invocation boundary\<close>

text \<open>
  Claim C10. Whatever \<open>executeTool\<close> throws (the two credential errors, a type error, the
  rethrown error of a failed or non-2xx request), the registered handler returns a result
  whose single text item is \<open>Error: \<close> followed by the message of the error, with the same
  requests made; and in every case the handler returns a result with exactly one text item,
  so nothing is thrown across the boundary. A rejected \<open>fetch\<close> and a response outside
  200 to 299 are both such errors, thrown with the long message.
\<close>

theorem handler_returns_errors_as_text:
  "(\<forall>e calls. executeTool rt cfg t args = (Inl e, calls) \<longrightarrow>
      toolHandler rt cfg t args = (\<lparr>content = [TextContent (''Error: '' @ message e)]\<rparr>, calls))
   \<and> (\<exists>text. content (fst (toolHandler rt cfg t args)) = [TextContent text])
   \<and> (\<forall>req m. fetch rt req = Rejected m \<longrightarrow>
         sendRequest rt t req = Inl (Error (errorMessage t m)))
   \<and> (\<forall>req status body. fetch rt req = Responded status body \<and> \<not> responseOk status \<longrightarrow>
         sendRequest rt t req
           = Inl (Error (errorMessage t (''HTTP '' @ showNat status @ '': '' @ body))))"
  by (simp add: toolHandler_Inl toolHandler_text sendRequest_def)

theorem handler_returns_errors_as_text_witness:
  "toolHandler stubRuntime exampleConfig listCustomers [(''limit'', JNum ''10'')]
     = (\<lparr>content = [TextContent ''Error: Organization ID is required for API access'']\<rparr>, [])
   \<and> prefix ''Error: Error executing getCustomer: HTTP 404: not found''
        (case content (fst (toolHandler (stubRuntime\<lparr>fetch := (\<lambda>req. Responded 404 ''not found'')\<rparr>)
           exampleConfig getCustomer
           [(''organization'', JStr ''org_1''), (''authorization'', JStr ''tok_1''),
            (''customer_id'', JStr ''c_42'')])) of [TextContent text] \<Rightarrow> text | _ \<Rightarrow> [])
   \<and> prefix ''Error: Error executing getCustomer: fetch failed''
        (case content (fst (toolHandler (stubRuntime\<lparr>fetch := (\<lambda>req. Rejected ''fetch failed'')\<rparr>)
           exampleConfig getCustomer
           [(''organization'', JStr ''org_1''), (''authorization'', JStr ''tok_1''),
            (''customer_id'', JStr ''c_42'')])) of [TextContent text] \<Rightarrow> text | _ \<Rightarrow> [])"
  using handler_returns_errors_as_text [of stubRuntime exampleConfig listCustomers "[(''limit'', JNum ''10'')]"]
    handler_returns_errors_as_text [of "stubRuntime\<lparr>fetch := (\<lambda>req. Responded 404 ''not found'')\<rparr>"
      exampleConfig getCustomer
      "[(''organization'', JStr ''org_1''), (''authorization'', JStr ''tok_1''), (''customer_id'', JStr ''c_42'')]"]
    handler_returns_errors_as_text [of "stubRuntime\<lparr>fetch := (\<lambda>req. Rejected ''fetch failed'')\<rparr>"
      exampleConfig getCustomer
      "[(''organization'', JStr ''org_1''), (''authorization'', JStr ''tok_1''), (''customer_id'', JStr ''c_42'')]"]
  by (simp add: listCustomers_no_credentials getCustomer_not_found getCustomer_unreachable)

section \<open>Approval\<close>

text \<open>
  Claim C1, evaluated at a tool flagged for approval. Take any tool whose catalogue entry has
  \<open>needsApproval\<close> set, called with no \<open>__userContext\<close> (so with no approval decision),
  with a non-empty organisation and credential, and with arguments from which the URL can be
  built. The handler of \<open>server.js\<close> returns no approval request: it hands exactly one
  request, for the tool's URL and method, to \<open>fetch\<close>, and its result is what the response
  gives. The claim says that such a call returns an approval request and makes no network
  call.
\<close>

theorem flagged_tool_is_executed:
  assumes "needsApproval t"
    and "getProp args ''__userContext'' = JUndefined"
    and "getProp args ''organization'' = JStr org" and "org \<noteq> []"
    and "getProp args ''authorization'' = JStr auth" and "auth \<noteq> []"
    and "buildUrl cfg t (withoutProp ''authorization'' (withoutProp ''organization'' args)) = Inr u"
  shows "\<exists>req. snd (toolHandler rt cfg t args) = [req]
           \<and> req_url req = u
           \<and> req_method req = template_method (tool_requestTemplate t)
           \<and> executeTool rt cfg t args = (sendRequest rt t req, [req])"
  by (simp add: toolHandler_calls executeTool_with_credentials[OF assms(3-7)])

theorem flagged_tool_is_executed_witness:
  "needsApproval deleteCustomer
   \<and> (\<exists>req. snd (toolHandler stubRuntime exampleConfig deleteCustomer
                 [(''organization'', JStr ''org_1''), (''authorization'', JStr ''tok_1''),
                  (''customer_id'', JStr ''c_42'')]) = [req]
         \<and> req_url req = ''https://api.zenskar.com/customers/c_42''
         \<and> req_method req = ''DELETE'')
   \<and> fst (toolHandler stubRuntime exampleConfig deleteCustomer
             [(''organization'', JStr ''org_1''), (''authorization'', JStr ''tok_1''),
              (''customer_id'', JStr ''c_42'')])
       = \<lparr>content = [TextContent ''[]'']\<rparr>"
proof -
  have n: "needsApproval deleteCustomer"
    by (simp add: deleteCustomer_def)
  have c: "getProp [(''organization'', JStr ''org_1''), (''authorization'', JStr ''tok_1''),
      (''customer_id'', JStr ''c_42'')] ''__userContext'' = JUndefined"
    by (simp add: getProp_def)
  have o: "getProp [(''organization'', JStr ''org_1''), (''authorization'', JStr ''tok_1''),
      (''customer_id'', JStr ''c_42'')] ''organization'' = JStr ''org_1''"
    by (simp add: getProp_def)
  have a: "getProp [(''organization'', JStr ''org_1''), (''authorization'', JStr ''tok_1''),
      (''customer_id'', JStr ''c_42'')] ''authorization'' = JStr ''tok_1''"
    by (simp add: getProp_def)
  have u: "buildUrl exampleConfig deleteCustomer
      (withoutProp ''authorization'' (withoutProp ''organization''
         [(''organization'', JStr ''org_1''), (''authorization'', JStr ''tok_1''),
          (''customer_id'', JStr ''c_42'')]))
     = Inr ''https://api.zenskar.com/customers/c_42''"
    by (simp add: model_defs example_defs)
  have m: "template_method (tool_requestTemplate deleteCustomer) = ''DELETE''"
    by (simp add: deleteCustomer_def)
  have h: "toolHandler stubRuntime exampleConfig deleteCustomer
      [(''organization'', JStr ''org_1''), (''authorization'', JStr ''tok_1''),
       (''customer_id'', JStr ''c_42'')]
     = (\<lparr>content = [TextContent ''[]'']\<rparr>,
        [\<lparr>req_url = ''https://api.zenskar.com/customers/c_42'', req_method = ''DELETE'',
          req_headers = [(''Content-Type'', ''application/json''), (''Accept'', ''application/json''),
             (''organisation'', ''org_1''), (''Authorization'', ''Bearer tok_1'')],
          req_body = None\<rparr>])"
    by (simp add: toolHandler_def deleteCustomer_call)
  show ?thesis
    using n m flagged_tool_is_executed [OF n c o _ a _ u, where rt = stubRuntime]
    by (simp add: h)
qed

section \<open>How the credential is sent\<close>

text \<open>
  Claim C3, evaluated at a credential that does not have three dot-delimited segments. Every
  request made for a call with such a credential carries it in the \<open>Authorization\<close> header
  (the credential itself when it starts with \<open>Bearer \<close>, and \<open>Bearer \<close> followed by
  the credential otherwise) and has no \<open>x-api-key\<close> header. The claim says that such a
  credential is sent as an \<open>x-api-key\<close> header instead.
\<close>

theorem api_key_sent_as_bearer:
  assumes "getProp args ''authorization'' = JStr auth"
    and "\<not> threeSegments auth"
    and "req \<in> set (snd (executeTool rt cfg t args))"
  shows "map_of (req_headers req) ''Authorization''
           = Some (if prefix ''Bearer '' auth then auth else ''Bearer '' @ auth)
     \<and> map_of (req_headers req) ''x-api-key'' = None"
proof -
  from executeTool_sent[OF assms(3)] obtain org auth' where
    "getProp args ''authorization'' = JStr auth'" "req_headers req = buildHeaders org auth'"
    by auto
  with assms(1) show ?thesis
    by (simp add: buildHeaders_def)
qed

theorem api_key_sent_as_bearer_witness:
  "\<not> threeSegments ''zsk_live_key''
   \<and> (\<exists>req. snd (executeTool stubRuntime exampleConfig listCustomers
                 [(''organization'', JStr ''org_1''), (''authorization'', JStr ''zsk_live_key'')])
               = [req]
         \<and> map_of (req_headers req) ''Authorization'' = Some ''Bearer zsk_live_key''
         \<and> map_of (req_headers req) ''x-api-key'' = None)"
proof -
  have a: "getProp [(''organization'', JStr ''org_1''), (''authorization'', JStr ''zsk_live_key'')]
      ''authorization'' = JStr ''zsk_live_key''"
    by (simp add: getProp_def)
  have s: "\<not> threeSegments ''zsk_live_key''"
    by (simp add: threeSegments_def)
  have m: "\<lparr>req_url = ''https://api.zenskar.com/customers'', req_method = ''GET'',
        req_headers = [(''Content-Type'', ''application/json''), (''Accept'', ''application/json''),
           (''organisation'', ''org_1''), (''Authorization'', ''Bearer zsk_live_key'')],
        req_body = None\<rparr>
      \<in> set (snd (executeTool stubRuntime exampleConfig listCustomers
           [(''organization'', JStr ''org_1''), (''authorization'', JStr ''zsk_live_key'')]))"
    by (simp add: listCustomers_api_key_call)
  show ?thesis
    using s api_key_sent_as_bearer [OF a s m]
    by (simp add: listCustomers_api_key_call)
qed

section \<open>The process environment\<close>

text \<open>
  Claim C4, evaluated in an environment that holds both fallback values. With
  \<open>ZENSKAR_ORGANIZATION\<close> and \<open>ZENSKAR_AUTH_TOKEN\<close> set to non-empty values, a call
  whose \<open>organization\<close> is empty or absent fails with the organisation error, and a call
  with an organisation whose \<open>authorization\<close> is empty or absent fails with the
  authorisation error, both without a request. The claim says that such a call resolves its
  credentials from the environment.
\<close>

theorem environment_values_not_used:
  assumes "env rt ''ZENSKAR_ORGANIZATION'' = Some envOrganization" and "envOrganization \<noteq> []"
    and "env rt ''ZENSKAR_AUTH_TOKEN'' = Some envToken" and "envToken \<noteq> []"
  shows "(\<not> truthy (getProp args ''organization'') \<longrightarrow>
            executeTool rt cfg t args
              = (Inl (Error ''Organization ID is required for API access''), []))
     \<and> (truthy (getProp args ''organization'') \<and> \<not> truthy (getProp args ''authorization'') \<longrightarrow>
            executeTool rt cfg t args
              = (Inl (Error ''Authorization token is required for API access''), []))"
  by (simp add: executeTool_organization_missing executeTool_authorization_missing)

theorem environment_values_not_used_witness:
  "env stubRuntime ''ZENSKAR_ORGANIZATION'' = Some ''org_env''
   \<and> env stubRuntime ''ZENSKAR_AUTH_TOKEN'' = Some ''tok_env''
   \<and> executeTool stubRuntime exampleConfig listCustomers
        [(''organization'', JStr []), (''authorization'', JStr [])]
      = (Inl (Error ''Organization ID is required for API access''), [])
   \<and> executeTool stubRuntime exampleConfig listCustomers
        [(''organization'', JStr ''org_1''), (''authorization'', JStr [])]
      = (Inl (Error ''Authorization token is required for API access''), [])"
proof -
  have o: "env stubRuntime ''ZENSKAR_ORGANIZATION'' = Some ''org_env''"
    by (simp add: stubRuntime_def exampleEnv_def)
  have k: "env stubRuntime ''ZENSKAR_AUTH_TOKEN'' = Some ''tok_env''"
    by (simp add: stubRuntime_def exampleEnv_def)
  show ?thesis
    using o k
      environment_values_not_used [OF o _ k, where cfg = exampleConfig and t = listCustomers
        and args = "[(''organization'', JStr []), (''authorization'', JStr [])]"]
      environment_values_not_used [OF o _ k, where cfg = exampleConfig and t = listCustomers
        and args = "[(''organization'', JStr ''org_1''), (''authorization'', JStr [])]"]
    by (simp add: getProp_def)
qed

section \<open>Limits\<close>

text \<open>
  Claim C2, evaluated at its own scenario: \<open>listCustomers\<close> called with \<open>limit = 500\<close>,
  which is above the policy maximum of 100. The call is not blocked: the handler hands one
  request to \<open>fetch\<close>, with \<open>limit=500\<close> in its query string, and returns the text of the
  response. The claim says that the call is blocked before any network call and answered
  with a remediation message.
\<close>

theorem oversized_limit_is_forwarded:
  "listCustomersMaxLimit < 500
   \<and> showNat 500 = ''500''
   \<and> toolHandler stubRuntime exampleConfig listCustomers
        [(''organization'', JStr ''org_1''), (''authorization'', JStr ''tok_1''),
         (''limit'', JNum ''500'')]
      = (\<lparr>content = [TextContent ''[]'']\<rparr>,
         [\<lparr>req_url = ''https://api.zenskar.com/customers?limit=500'', req_method = ''GET'',
           req_headers = [(''Content-Type'', ''application/json''), (''Accept'', ''application/json''),
              (''organisation'', ''org_1''), (''Authorization'', ''Bearer tok_1'')],
           req_body = None\<rparr>])"
  by (simp add: toolHandler_def listCustomers_call listCustomersMaxLimit_def showNat.simps)

section \<open>The query string\<close>

text \<open>
  Claim C8, evaluated at an empty string and at an array. The query parameters have one
  entry for each query-position argument whose value is not \<open>undefined\<close>, named after the
  argument. For a query-position argument whose value is the empty string that entry is
  present, with an empty value; for one whose value is an array of strings the entry is a
  single one, holding the elements joined by commas. The claim says that an empty string is
  left out and that an array gives one entry per element.
\<close>

theorem empty_string_and_array_in_query:
  assumes "addQueryParams toolArgs (tool_args t) [] = Inr queryParams"
    and "addPathParams toolArgs (tool_args t)
           (baseUrl (config_server cfg) @ template_url (tool_requestTemplate t)) = Inr u"
    and "a \<in> set (tool_args t)" and "arg_position a = ''query''"
  shows "map fst queryParams = map arg_name (definedQueryArgs toolArgs (tool_args t))
     \<and> (getProp toolArgs (arg_name a) = JStr [] \<longrightarrow> (arg_name a, []) \<in> set queryParams)
     \<and> (\<forall>ss. getProp toolArgs (arg_name a) = JArr (map JStr ss)
            \<longrightarrow> (arg_name a, joinWith '','' ss) \<in> set queryParams)
     \<and> buildUrl cfg t toolArgs
         = Inr (if serializeParams queryParams \<noteq> [] then u @ ''?'' @ serializeParams queryParams
                else u)"
proof (intro conjI impI allI)
  show "map fst queryParams = map arg_name (definedQueryArgs toolArgs (tool_args t))"
    using addQueryParams_exact[OF assms(1)] by simp
next
  assume "getProp toolArgs (arg_name a) = JStr []"
  then show "(arg_name a, []) \<in> set queryParams"
    using addQueryParams_value[OF assms(1) assms(3) assms(4), of "[]"] by simp
next
  fix ss
  assume "getProp toolArgs (arg_name a) = JArr (map JStr ss)"
  then show "(arg_name a, joinWith '','' ss) \<in> set queryParams"
    using addQueryParams_value[OF assms(1) assms(3) assms(4), of "joinWith '','' ss"]
    by (simp add: ToStringElems_strings)
next
  show "buildUrl cfg t toolArgs
      = Inr (if serializeParams queryParams \<noteq> [] then u @ ''?'' @ serializeParams queryParams
             else u)"
    using assms(1,2) by (simp add: buildUrl_def)
qed

theorem empty_string_and_array_in_query_witness:
  "addQueryParams [(''search'', JStr []), (''tags'', JArr [JStr ''a'', JStr ''b''])]
     (tool_args listCustomers) []
     = Inr [(''search'', []), (''tags'', ''a,b'')]
   \<and> (''search'', []) \<in> set [(''search'', []), (''tags'', ''a,b'')]
   \<and> (''tags'', joinWith '','' [''a'', ''b'']) \<in> set [(''search'', []), (''tags'', ''a,b'')]
   \<and> buildUrl exampleConfig listCustomers
        [(''search'', JStr []), (''tags'', JArr [JStr ''a'', JStr ''b''])]
      = Inr ''https://api.zenskar.com/customers?search=&tags=a%2Cb''"
proof -
  define toolArgs where
    "toolArgs = [(''search'', JStr []), (''tags'', JArr [JStr ''a'', JStr ''b''])]"
  define search where
    "search = \<lparr>arg_name = ''search'', arg_type = ''string'', arg_position = ''query'',
               arg_required = False, arg_description = ''Search text''\<rparr>"
  define tags where
    "tags = \<lparr>arg_name = ''tags'', arg_type = ''array'', arg_position = ''query'',
             arg_required = False, arg_description = ''Tags''\<rparr>"
  have q: "addQueryParams toolArgs (tool_args listCustomers) [] = Inr [(''search'', []), (''tags'', ''a,b'')]"
    unfolding toolArgs_def by (rule listCustomers_empty_and_array_params)
  have p: "addPathParams toolArgs (tool_args listCustomers)
       (baseUrl (config_server exampleConfig) @ template_url (tool_requestTemplate listCustomers))
     = Inr ''https://api.zenskar.com/customers''"
    by (simp add: toolArgs_def model_defs example_defs)
  have s: "serializeParams [(''search'', []), (''tags'', ''a,b'')] = ''search=&tags=a%2Cb''"
    by (simp add: model_defs)
  have m1: "search \<in> set (tool_args listCustomers)" and m2: "tags \<in> set (tool_args listCustomers)"
    by (simp_all add: search_def tags_def listCustomers_def)
  have p1: "arg_position search = ''query''" and p2: "arg_position tags = ''query''"
    by (simp_all add: search_def tags_def)
  have v1: "getProp toolArgs (arg_name search) = JStr []"
    by (simp add: toolArgs_def search_def getProp_def)
  have v2: "getProp toolArgs (arg_name tags) = JArr (map JStr [''a'', ''b''])"
    by (simp add: toolArgs_def tags_def getProp_def)
  note w1 = empty_string_and_array_in_query [OF q p m1 p1]
  note w2 = empty_string_and_array_in_query [OF q p m2 p2]
  have r1: "(arg_name search, []) \<in> set [(''search'', []), (''tags'', ''a,b'')]"
    using w1[THEN conjunct2, THEN conjunct1] v1 by blast
  have r2: "(arg_name tags, joinWith '','' [''a'', ''b'']) \<in> set [(''search'', []), (''tags'', ''a,b'')]"
    using w2[THEN conjunct2, THEN conjunct2, THEN conjunct1] v2 by blast
  have r3: "buildUrl exampleConfig listCustomers toolArgs
      = Inr ''https://api.zenskar.com/customers?search=&tags=a%2Cb''"
    using w1[THEN conjunct2, THEN conjunct2, THEN conjunct2] s by simp
  from q r1 r2 r3 show ?thesis
    by (simp add: toolArgs_def search_def tags_def)
qed

section \<open>Path parameters\<close>

text \<open>
  Claim C9, evaluated at a value with reserved characters: \<open>getCustomer\<close> called with
  the customer id \<open>a/b?x=1&y=2 3\<close> requests the URL with that text inserted as it is; the
  slash, the question mark, the ampersand and the space are not percent-encoded.
\<close>

theorem path_value_inserted_verbatim:
  "map req_url (snd (executeTool stubRuntime exampleConfig getCustomer
     [(''organization'', JStr ''org_1''), (''authorization'', JStr ''tok_1''),
      (''customer_id'', JStr ''a/b?x=1&y=2 3'')]))
   = [''https://api.zenskar.com/customers/a/b?x=1&y=2 3'']"
  by (simp add: model_defs example_defs)

section \<open>The body of \<open>createRawMetric\<close>\<close>

text \<open>
  Claim C6, evaluated at a caller-supplied \<open>column_order\<close>. Take a tool named
  \<open>createRawMetric\<close>, sent with a mutating method, whose catalogue entry declares
  \<open>column_order\<close> as a body argument, and a call that supplies a truthy value for it (any
  non-empty string, any array). The body that is serialised into the request holds the
  caller's value under \<open>column_order\<close>. The claim says that the body holds
  \<open>["timestamp"]\<close> whatever the caller supplied.
\<close>

theorem supplied_column_order_is_kept:
  assumes "tool_name t = ''createRawMetric''"
    and "list_ex (\<lambda>a. arg_position a = ''body'' \<and> arg_name a = ''column_order'') (tool_args t)"
    and "truthy (getProp toolArgs ''column_order'')"
    and "isMutating (template_method (tool_requestTemplate t))"
  shows "getProp (buildBodyArgs t toolArgs) ''column_order'' = getProp toolArgs ''column_order''
     \<and> buildBody rt t toolArgs = Some (JSON_stringify rt (JObj (buildBodyArgs t toolArgs)))"
proof -
  from assms(1) have n: "tool_name t \<noteq> ''ingestRawMetricEvent''" by simp
  have b: "buildBodyArgs t toolArgs = rawMetricDefaults toolArgs (collectBodyArgs t toolArgs)"
    using assms(1) by (simp add: buildBodyArgs_def)
  have c: "getProp (collectBodyArgs t toolArgs) ''column_order'' = getProp toolArgs ''column_order''"
    using assms(2) by (simp add: collectBodyArgs_plain[OF n] suppliedBodyArg_def)
  have "getProp (buildBodyArgs t toolArgs) ''column_order'' = getProp toolArgs ''column_order''"
    using assms(3) by (simp add: b rawMetricDefaults_column_order c)
  moreover have "buildBody rt t toolArgs = Some (JSON_stringify rt (JObj (buildBodyArgs t toolArgs)))"
    using assms(4) by (simp add: buildBody_def b rawMetricDefaults_not_Nil)
  ultimately show ?thesis by simp
qed

theorem supplied_column_order_is_kept_witness:
  "getProp (buildBodyArgs createRawMetric
       [(''name'', JStr ''api_calls''), (''column_order'', JArr [JStr ''customer_id''])])
     ''column_order'' = JArr [JStr ''customer_id'']
   \<and> JArr [JStr ''customer_id''] \<noteq> JArr [JStr ''timestamp'']
   \<and> buildBody stubRuntime createRawMetric
        [(''name'', JStr ''api_calls''), (''column_order'', JArr [JStr ''customer_id''])]
      = Some (JSON_stringify stubRuntime (JObj (buildBodyArgs createRawMetric
          [(''name'', JStr ''api_calls''), (''column_order'', JArr [JStr ''customer_id''])])))"
proof -
  have n: "tool_name createRawMetric = ''createRawMetric''"
    by (simp add: createRawMetric_def)
  have d: "list_ex (\<lambda>a. arg_position a = ''body'' \<and> arg_name a = ''column_order'')
      (tool_args createRawMetric)"
    by (simp add: createRawMetric_def)
  have g: "getProp [(''name'', JStr ''api_calls''), (''column_order'', JArr [JStr ''customer_id''])]
      ''column_order'' = JArr [JStr ''customer_id'']"
    by (simp add: getProp_def)
  have v: "truthy (getProp [(''name'', JStr ''api_calls''),
      (''column_order'', JArr [JStr ''customer_id''])] ''column_order'')"
    by (simp add: g)
  show ?thesis
    using supplied_column_order_is_kept [OF n d v createRawMetric_mutating, where rt = stubRuntime] g
    by simp
qed

section \<open>The body of \<open>ingestRawMetricEvent\<close>\<close>



end
